theory Spec2Isabelle
  imports Complex_Main
begin

section \<open>Framework objects the losses are written against\<close>

text \<open>
  The repository is glue over an external tensor library. Its own code decides which
  tensors are combined and how; the tensor operations themselves are the library's.
  A tensor is therefore a value of a type variable \<open>'t\<close>, and the library operations the
  source calls are the fields of a record that every modelled function receives.
\<close>

datatype error = ValueError

text \<open>\<^verbatim>\<open>Union[tf.Tensor, List[tf.Tensor]]\<close>: a tensor, or a Python list of tensors.\<close>

datatype 't tensors = Tensor 't | TensorList "'t list"

text \<open>
  The operations of the tensor library the sources call, each named after the call it
  stands for. \<open>tf_reduce_mean t axis\<close> is \<^verbatim>\<open>tf.reduce_mean(t, axis=axis)\<close> with \<open>None\<close> for
  \<^verbatim>\<open>axis=None\<close>; \<open>tf_subtract\<close>, \<open>tf_add\<close> and \<open>tf_scalar_mul\<close> are the overloaded operators
  \<^verbatim>\<open>x - y\<close>, \<open>x + y\<close> and \<^verbatim>\<open>0.5 * x\<close>; \<open>tf_unstack\<close> is Python's iteration over a tensor (its
  slices along the first axis); \<open>tf_AvgPool2D\<close> is the layer \<^verbatim>\<open>tf.keras.layers.AvgPool2D()\<close>
  applied to a tensor.
\<close>

record 't tf =
  tf_ones_like :: "'t \<Rightarrow> 't"
  tf_zeros_like :: "'t \<Rightarrow> 't"
  tf_reduce_mean :: "'t \<Rightarrow> int list option \<Rightarrow> 't"
  tf_add_n :: "'t list \<Rightarrow> 't"
  tf_expand_dims :: "'t \<Rightarrow> int \<Rightarrow> 't"
  tf_rank :: "'t \<Rightarrow> int"
  tf_abs :: "'t \<Rightarrow> 't"
  tf_subtract :: "'t \<Rightarrow> 't \<Rightarrow> 't"
  tf_add :: "'t \<Rightarrow> 't \<Rightarrow> 't"
  tf_scalar_mul :: "real \<Rightarrow> 't \<Rightarrow> 't"
  tf_unstack :: "'t \<Rightarrow> 't list"
  tf_AvgPool2D :: "'t \<Rightarrow> 't"

text \<open>
  \<^verbatim>\<open>tf.losses.Reduction\<close> (its member \<^verbatim>\<open>SUM\<close> is written \<open>SUM'\<close>) and the base class of the loss
  objects, which carries it.
\<close>

datatype Reduction = AUTO | NONE | SUM' | SUM_OVER_BATCH_SIZE

record Loss =
  reduction :: Reduction

text \<open>
  A Keras model as the losses see it: the attribute \<^verbatim>\<open>inputs\<close>, of which only the length is
  read. Model classes are extensions of this record.
\<close>

record keras_model =
  inputs :: "int list"

text \<open>
  The GAN context. \<^verbatim>\<open>hasattr(context, "encoder_model")\<close> is \<open>encoder_model context \<noteq> None\<close>;
  the encoder is called as \<^verbatim>\<open>encoder_model(x, training=training)\<close>.
\<close>

record ('t, 'm) GANContext =
  discriminator_model :: "'m keras_model_scheme"
  encoder_model :: "('t \<Rightarrow> bool \<Rightarrow> 't) option"

section \<open>GANExecutor.get_discriminator_inputs\<close>

definition get_discriminator_inputs ::
  "('t, 'm) GANContext \<Rightarrow> 't \<Rightarrow> 't \<Rightarrow> bool \<Rightarrow> error + 't tensors" where
  "get_discriminator_inputs context fake_or_real condition training =
     (let num_inputs = length (inputs (discriminator_model context)) in
      case encoder_model context of
        Some encoder \<Rightarrow>
          if num_inputs = 2 then
            Inr (TensorList [fake_or_real, encoder fake_or_real training])
          else if num_inputs = 3 then
            Inr (TensorList [fake_or_real, encoder fake_or_real training, condition])
          else Inl ValueError
      | None \<Rightarrow>
          if num_inputs = 2 then Inr (TensorList [fake_or_real, condition])
          else Inr (Tensor fake_or_real))"

section \<open>Selecting the adversarial loss\<close>

datatype AdversarialLossType = GAN | LSGAN

text \<open>The \<^verbatim>\<open>.value\<close> of an enum member: \<^verbatim>\<open>GAN = 0\<close>, \<^verbatim>\<open>LSGAN = 1\<close>.\<close>

fun enum_value :: "AdversarialLossType \<Rightarrow> int" where
  "enum_value GAN = 0"
| "enum_value LSGAN = 1"

text \<open>
  The selectors are annotated \<^verbatim>\<open>Union[AdversarialLossType, int]\<close> but compare their argument
  with \<^verbatim>\<open>==\<close>, so what they do is fixed by Python's equality. The values modelled are the
  enum members, the integers, the booleans (a subclass of \<^verbatim>\<open>int\<close>: \<^verbatim>\<open>False == 0\<close> and
  \<^verbatim>\<open>True == 1\<close>), strings and \<^verbatim>\<open>None\<close>. A member of a plain \<^verbatim>\<open>Enum\<close> equals only itself.
\<close>

datatype pyval =
  PyEnum AdversarialLossType
| PyInt int
| PyBool bool
| PyStr string
| PyNone

fun py_eq :: "pyval \<Rightarrow> pyval \<Rightarrow> bool" where
  "py_eq (PyEnum a) (PyEnum b) = (a = b)"
| "py_eq (PyInt a) (PyInt b) = (a = b)"
| "py_eq (PyBool a) (PyBool b) = (a = b)"
| "py_eq (PyInt a) (PyBool b) = (a = (if b then 1 else 0))"
| "py_eq (PyBool a) (PyInt b) = ((if a then 1 else 0) = b)"
| "py_eq (PyStr a) (PyStr b) = (a = b)"
| "py_eq PyNone PyNone = True"
| "py_eq _ _ = False"

text \<open>The executor classes of \<^verbatim>\<open>ashpy/losses/gan.py\<close>, as class objects.\<close>

datatype executor_class =
  GeneratorBCE
| GeneratorLSGAN
| GeneratorL1
| FeatureMatchingLoss
| CategoricalCrossEntropy
| EncoderBCE
| DiscriminatorMinMax
| DiscriminatorLSGAN

definition get_adversarial_loss_discriminator :: "pyval \<Rightarrow> error + executor_class" where
  "get_adversarial_loss_discriminator adversarial_loss_type =
     (if py_eq adversarial_loss_type (PyEnum GAN)
         \<or> py_eq adversarial_loss_type (PyInt (enum_value GAN))
      then Inr DiscriminatorMinMax
      else if py_eq adversarial_loss_type (PyEnum LSGAN)
         \<or> py_eq adversarial_loss_type (PyInt (enum_value LSGAN))
      then Inr DiscriminatorLSGAN
      else Inl ValueError)"

definition get_adversarial_loss_generator :: "pyval \<Rightarrow> error + executor_class" where
  "get_adversarial_loss_generator adversarial_loss_type =
     (if py_eq adversarial_loss_type (PyEnum GAN)
         \<or> py_eq adversarial_loss_type (PyInt (enum_value GAN))
      then Inr GeneratorBCE
      else if py_eq adversarial_loss_type (PyEnum LSGAN)
         \<or> py_eq adversarial_loss_type (PyInt (enum_value LSGAN))
      then Inr GeneratorLSGAN
      else Inl ValueError)"

section \<open>Composite losses\<close>

text \<open>
  Modelled from the spec: \<^verbatim>\<open>Executor.__mul__\<close> and \<^verbatim>\<open>SumExecutor\<close> live in
  \<^verbatim>\<open>ashpy/losses/executor.py\<close>, which is not among the sources. The spec describes them as
  "\<^verbatim>\<open>Executor\<close> objects that can be added, scaled, and summed to build composite adversarial
  objectives", "weighted sums of tensor-producing callables". An executor is therefore a
  term: an instance of a class built with its default arguments (\<open>Instance\<close>), an executor
  scaled by a weight (\<open>Mul\<close>, the source's \<^verbatim>\<open>executor * weight\<close>), or the sum of a list of
  executors (\<open>SumExecutor\<close>). A weight is a scalar, a tensor or a callable: a value of \<open>'w\<close>.
\<close>

datatype 'w Executor =
  Instance executor_class
| Mul "'w Executor" 'w
| SumExecutor "'w Executor list"

text \<open>
  Modelled from the spec: the value of a composite, "a weighted sum": a scaled executor
  yields its weight times the value of the executor, a sum yields the sum of its summands.
  \<open>call\<close> gives the value each plain loss yields on the arguments at hand.
\<close>

fun executor_value :: "(executor_class \<Rightarrow> 'a) \<Rightarrow> 'a Executor \<Rightarrow> 'a :: comm_semiring_1" where
  "executor_value call (Instance c) = call c"
| "executor_value call (Mul e w) = w * executor_value call e"
| "executor_value call (SumExecutor es) = sum_list (map (executor_value call) es)"

text \<open>
  \<^verbatim>\<open>Pix2PixLoss.__init__\<close>. The executors list is built first; \<^verbatim>\<open>get_adversarial_loss_generator\<close>
  may raise, and then nothing is constructed.
\<close>

definition Pix2PixLoss ::
  "'w \<Rightarrow> 'w \<Rightarrow> 'w \<Rightarrow> pyval \<Rightarrow> bool \<Rightarrow> error + 'w Executor" where
  "Pix2PixLoss l1_loss_weight adversarial_loss_weight feature_matching_weight
       adversarial_loss_type use_feature_matching_loss =
     (case get_adversarial_loss_generator adversarial_loss_type of
        Inl e \<Rightarrow> Inl e
      | Inr adversarial \<Rightarrow>
          (let executors =
                 [Mul (Instance GeneratorL1) l1_loss_weight,
                  Mul (Instance adversarial) adversarial_loss_weight];
               executors =
                 (if use_feature_matching_loss
                  then executors @ [Mul (Instance FeatureMatchingLoss) feature_matching_weight]
                  else executors)
           in Inr (SumExecutor executors)))"

definition Pix2PixLossSemantic ::
  "'w \<Rightarrow> 'w \<Rightarrow> 'w \<Rightarrow> pyval \<Rightarrow> bool \<Rightarrow> error + 'w Executor" where
  "Pix2PixLossSemantic cross_entropy_weight adversarial_loss_weight feature_matching_weight
       adversarial_loss_type use_feature_matching_loss =
     (case get_adversarial_loss_generator adversarial_loss_type of
        Inl e \<Rightarrow> Inl e
      | Inr adversarial \<Rightarrow>
          (let executors =
                 [Mul (Instance CategoricalCrossEntropy) cross_entropy_weight,
                  Mul (Instance adversarial) adversarial_loss_weight];
               executors =
                 (if use_feature_matching_loss
                  then executors @ [Mul (Instance FeatureMatchingLoss) feature_matching_weight]
                  else executors)
           in Inr (SumExecutor executors)))"

section \<open>Adversarial losses\<close>

text \<open>
  Python's iteration over the output of a model, as \<^verbatim>\<open>zip\<close> performs it: the elements of a
  list, the slices of a tensor.
\<close>

fun py_iter :: "'t tf \<Rightarrow> 't tensors \<Rightarrow> 't list" where
  "py_iter tf (TensorList ts) = ts"
| "py_iter tf (Tensor t) = tf_unstack tf t"

text \<open>
  \<^verbatim>\<open>AdversarialLossG.call\<close> as the source writes it, before its decorator. Parameters that
  the source takes from objects outside these files: \<open>call_model\<close> is the call of a Keras
  model, \<^verbatim>\<open>model(inputs, training=training)\<close>, and \<open>fn\<close> is the loss object \<^verbatim>\<open>self._fn\<close>
  applied to \<^verbatim>\<open>(y_true, y_pred)\<close>.
\<close>

definition AdversarialLossG_call_body ::
  "'t tf \<Rightarrow> ('m keras_model_scheme \<Rightarrow> 't tensors \<Rightarrow> bool \<Rightarrow> 't tensors) \<Rightarrow>
   ('t tensors \<Rightarrow> 't \<Rightarrow> 't) \<Rightarrow> ('t, 'm) GANContext \<Rightarrow> 't \<Rightarrow> 't \<Rightarrow> bool \<Rightarrow> error + 't" where
  "AdversarialLossG_call_body tf call_model fn context fake condition training =
     (case get_discriminator_inputs context fake condition training of
        Inl e \<Rightarrow> Inl e
      | Inr fake_inputs \<Rightarrow>
          (case call_model (discriminator_model context) fake_inputs training of
             TensorList d_fake \<Rightarrow>
               Inr (tf_add_n tf
                     (map (\<lambda>d_fake_i.
                             tf_reduce_mean tf
                               (fn (Tensor (tf_ones_like tf d_fake_i)) d_fake_i) (Some [1, 2]))
                          d_fake))
           | Tensor d_fake \<Rightarrow>
               (let value = fn (Tensor (tf_ones_like tf d_fake)) d_fake;
                    value =
                      (if tf_rank tf d_fake = 4 then value
                       else tf_expand_dims tf (tf_expand_dims tf value (- 1)) (- 1))
                in Inr (tf_reduce_mean tf value (Some [1, 2])))))"

text \<open>
  The decorator \<^verbatim>\<open>@Executor.reduce_loss\<close> is defined in \<^verbatim>\<open>ashpy/losses/executor.py\<close>, which is
  not among the sources: what it does to the per-example loss the body returns is the
  parameter \<open>reduce_loss\<close>.
\<close>

definition AdversarialLossG_call ::
  "('t \<Rightarrow> 't) \<Rightarrow> 't tf \<Rightarrow> ('m keras_model_scheme \<Rightarrow> 't tensors \<Rightarrow> bool \<Rightarrow> 't tensors) \<Rightarrow>
   ('t tensors \<Rightarrow> 't \<Rightarrow> 't) \<Rightarrow> ('t, 'm) GANContext \<Rightarrow> 't \<Rightarrow> 't \<Rightarrow> bool \<Rightarrow> error + 't" where
  "AdversarialLossG_call reduce_loss tf call_model fn context fake condition training =
     map_sum id reduce_loss
       (AdversarialLossG_call_body tf call_model fn context fake condition training)"

text \<open>\<^verbatim>\<open>AdversarialLossD.call\<close>; here \<open>fn\<close> is applied to \<^verbatim>\<open>(d_real, d_fake)\<close>.\<close>

definition AdversarialLossD_call_body ::
  "'t tf \<Rightarrow> ('m keras_model_scheme \<Rightarrow> 't tensors \<Rightarrow> bool \<Rightarrow> 't tensors) \<Rightarrow>
   ('t tensors \<Rightarrow> 't \<Rightarrow> 't) \<Rightarrow> ('t, 'm) GANContext \<Rightarrow> 't \<Rightarrow> 't \<Rightarrow> 't \<Rightarrow> bool \<Rightarrow>
   error + 't" where
  "AdversarialLossD_call_body tf call_model fn context fake real' condition training =
     (case get_discriminator_inputs context fake condition training of
        Inl e \<Rightarrow> Inl e
      | Inr fake_inputs \<Rightarrow>
          (case get_discriminator_inputs context real' condition training of
             Inl e \<Rightarrow> Inl e
           | Inr real_inputs \<Rightarrow>
               (let d_fake = call_model (discriminator_model context) fake_inputs training;
                    d_real = call_model (discriminator_model context) real_inputs training
                in case d_fake of
                     TensorList d_fake_list \<Rightarrow>
                       Inr (tf_add_n tf
                             (map (\<lambda>(d_real_i, d_fake_i).
                                     tf_reduce_mean tf (fn (Tensor d_real_i) d_fake_i)
                                       (Some [1, 2]))
                                  (zip (py_iter tf d_real) d_fake_list)))
                   | Tensor d_fake_tensor \<Rightarrow>
                       (let value = fn d_real d_fake_tensor;
                            value =
                              (if tf_rank tf d_fake_tensor = 4 then value
                               else tf_expand_dims tf (tf_expand_dims tf value (- 1)) (- 1))
                        in Inr (tf_reduce_mean tf value (Some [1, 2]))))))"

definition AdversarialLossD_call ::
  "('t \<Rightarrow> 't) \<Rightarrow> 't tf \<Rightarrow> ('m keras_model_scheme \<Rightarrow> 't tensors \<Rightarrow> bool \<Rightarrow> 't tensors) \<Rightarrow>
   ('t tensors \<Rightarrow> 't \<Rightarrow> 't) \<Rightarrow> ('t, 'm) GANContext \<Rightarrow> 't \<Rightarrow> 't \<Rightarrow> 't \<Rightarrow> bool \<Rightarrow>
   error + 't" where
  "AdversarialLossD_call reduce_loss tf call_model fn context fake real' condition training =
     map_sum id reduce_loss
       (AdversarialLossD_call_body tf call_model fn context fake real' condition training)"

section \<open>GeneratorL1.L1Loss\<close>

text \<open>
  \<^verbatim>\<open>L1Loss\<close> keeps its reduction in \<^verbatim>\<open>self._reduction\<close>, read and written through the property
  \<^verbatim>\<open>reduction\<close>; the constructor leaves it at \<^verbatim>\<open>SUM_OVER_BATCH_SIZE\<close>.
\<close>

definition L1Loss_init :: Loss where
  "L1Loss_init = \<lparr>reduction = SUM_OVER_BATCH_SIZE\<rparr>"

definition L1Loss_call :: "'t tf \<Rightarrow> Loss \<Rightarrow> 't \<Rightarrow> 't \<Rightarrow> error + 't" where
  "L1Loss_call tf self x y =
     (if reduction self = SUM_OVER_BATCH_SIZE then
        Inr (tf_reduce_mean tf (tf_abs tf (tf_subtract tf x y)) None)
      else if reduction self = NONE then
        Inr (tf_reduce_mean tf (tf_abs tf (tf_subtract tf x y)) (Some [1, 2, 3]))
      else Inl ValueError)"

section \<open>DiscriminatorMinMax.GANLoss\<close>

text \<open>
  The library's \<^verbatim>\<open>tf.losses.BinaryCrossentropy\<close>: an object holding its constructor
  arguments. What it computes when called on \<^verbatim>\<open>(y_true, y_pred)\<close> is the parameter \<open>bce\<close> of
  \<open>GANLoss_call\<close>.
\<close>

record BinaryCrossentropy = Loss +
  from_logits :: bool
  label_smoothing :: real

record GANLoss =
  positive_bce :: BinaryCrossentropy
  negative_bce :: BinaryCrossentropy

text \<open>The property \<^verbatim>\<open>reduction\<close> of \<^verbatim>\<open>GANLoss\<close> and its setter.\<close>

definition GANLoss_reduction :: "GANLoss \<Rightarrow> Reduction" where
  "GANLoss_reduction self = reduction (positive_bce self)"

definition GANLoss_set_reduction :: "Reduction \<Rightarrow> GANLoss \<Rightarrow> GANLoss" where
  "GANLoss_set_reduction v self =
     self\<lparr>positive_bce := (positive_bce self)\<lparr>reduction := v\<rparr>,
          negative_bce := (negative_bce self)\<lparr>reduction := v\<rparr>\<rparr>"

text \<open>
  \<^verbatim>\<open>GANLoss.__init__\<close>. Its last statement, \<^verbatim>\<open>super().__init__()\<close>, runs the constructor of the
  library's \<^verbatim>\<open>tf.losses.Loss\<close>, which stores its \<^verbatim>\<open>reduction\<close> argument (default \<^verbatim>\<open>AUTO\<close>) in
  \<^verbatim>\<open>self.reduction\<close>: in this class that assignment goes through the setter above.
\<close>

definition GANLoss_init :: "bool \<Rightarrow> real \<Rightarrow> GANLoss" where
  "GANLoss_init from_logits' label_smoothing' =
     GANLoss_set_reduction AUTO
       \<lparr>positive_bce =
          \<lparr>reduction = NONE, from_logits = from_logits', label_smoothing = label_smoothing'\<rparr>,
        negative_bce =
          \<lparr>reduction = NONE, from_logits = from_logits', label_smoothing = 0.0\<rparr>\<rparr>"

definition GANLoss_call ::
  "'t tf \<Rightarrow> (BinaryCrossentropy \<Rightarrow> 't \<Rightarrow> 't \<Rightarrow> 't) \<Rightarrow> GANLoss \<Rightarrow> 't \<Rightarrow> 't \<Rightarrow> 't" where
  "GANLoss_call tf bce self d_real d_fake =
     tf_scalar_mul tf 0.5
       (tf_add tf
          (bce (positive_bce self) (tf_ones_like tf d_real) d_real)
          (bce (negative_bce self) (tf_zeros_like tf d_fake) d_fake))"

section \<open>Discriminators\<close>

text \<open>
  The attributes the two discriminator classes carry. Both are Keras models; their
  layers are built by the base class \<^verbatim>\<open>BaseEncoder\<close> and by the library, outside these
  sources, so a discriminator is the record of what it is constructed with.
  \<^verbatim>\<open>dropout_prob\<close> is a float that is only stored and handed on (\<open>'f\<close>); the layer classes
  \<^verbatim>\<open>non_linearity\<close> and \<^verbatim>\<open>normalization_layer\<close> are values of \<open>'l\<close>.
\<close>

record ('f, 'l) Discriminator = keras_model +
  kernel_size :: int
  initial_filters :: int
  filters_cap :: int
  use_dropout :: bool
  dropout_prob :: 'f
  non_linearity :: 'l
  normalization_layer :: 'l
  use_attention :: bool

text \<open>
  \<^verbatim>\<open>PatchDiscriminator\<close>: \<^verbatim>\<open>input_res\<close> and \<^verbatim>\<open>min_res\<close> are passed to the base constructor as
  \<^verbatim>\<open>layer_spec_input_res\<close> and \<^verbatim>\<open>layer_spec_target_res\<close>.
\<close>

record ('f, 'l) PatchDiscriminator = "('f, 'l) Discriminator" +
  layer_spec_input_res :: int
  layer_spec_target_res :: int

definition PatchDiscriminator_init ::
  "int \<Rightarrow> int \<Rightarrow> int \<Rightarrow> int \<Rightarrow> int \<Rightarrow> bool \<Rightarrow> 'f \<Rightarrow> 'l \<Rightarrow> 'l \<Rightarrow> bool \<Rightarrow>
   ('f, 'l) PatchDiscriminator" where
  "PatchDiscriminator_init input_res' min_res' kernel_size' initial_filters' filters_cap'
       use_dropout' dropout_prob' non_linearity' normalization_layer' use_attention' =
     \<lparr>inputs = [1, 1],
      kernel_size = kernel_size',
      initial_filters = initial_filters',
      filters_cap = filters_cap',
      use_dropout = use_dropout',
      dropout_prob = dropout_prob',
      non_linearity = non_linearity',
      normalization_layer = normalization_layer',
      use_attention = use_attention',
      layer_spec_input_res = input_res',
      layer_spec_target_res = min_res'\<rparr>"

record ('f, 'l) MultiScaleDiscriminator = "('f, 'l) Discriminator" +
  n_discriminators :: int
  input_res :: int
  min_res :: int
  discriminators :: "('f, 'l) PatchDiscriminator list"

text \<open>
  \<^verbatim>\<open>int(a / b)\<close>: Python's true division, truncated toward zero. Python computes the quotient
  as a float. For \<open>\<bar>a\<bar> < 2\<^sup>5\<^sup>3\<close> and \<open>b\<close> a power of two the float holds the quotient
  exactly, or, once the quotient is too small for a float, a value that is still below 1,
  so the truncation is that of the exact quotient, which is what this definition gives.
  From \<open>2\<^sup>5\<^sup>3\<close> on the float rounds the quotient (\<^verbatim>\<open>int((2**53 + 1) / 1)\<close> is \<open>2\<^sup>5\<^sup>3\<close>), and for
  integers beyond the range of a float the division raises \<^verbatim>\<open>OverflowError\<close>: there the
  definition does not describe the source, and a statement about the resolutions it yields
  carries the bound \<open>\<bar>input_res\<bar> < 2\<^sup>5\<^sup>3\<close>.
\<close>

definition py_int_truediv :: "int \<Rightarrow> int \<Rightarrow> int" where
  "py_int_truediv a b = sgn a * sgn b * (\<bar>a\<bar> div \<bar>b\<bar>)"

definition build_discriminator ::
  "('f, 'l) MultiScaleDiscriminator \<Rightarrow> int \<Rightarrow> ('f, 'l) PatchDiscriminator" where
  "build_discriminator self input_res' =
     PatchDiscriminator_init input_res' (min_res self) (kernel_size self)
       (initial_filters self) (filters_cap self) (use_dropout self) (dropout_prob self)
       (non_linearity self) (normalization_layer self) (use_attention self)"

text \<open>
  \<^verbatim>\<open>MultiScaleDiscriminator.__init__\<close>. The loop over \<^verbatim>\<open>range(self.n_discriminators)\<close> appends
  one discriminator per index; \<^verbatim>\<open>range\<close> of a negative number is empty. \<^verbatim>\<open>self.inputs\<close> is
  assigned last in the source, and nothing before reads it.
\<close>

definition MultiScaleDiscriminator_init ::
  "int \<Rightarrow> int \<Rightarrow> int \<Rightarrow> int \<Rightarrow> int \<Rightarrow> bool \<Rightarrow> 'f \<Rightarrow> 'l \<Rightarrow> 'l \<Rightarrow> bool \<Rightarrow> int \<Rightarrow>
   ('f, 'l) MultiScaleDiscriminator" where
  "MultiScaleDiscriminator_init input_res' min_res' kernel_size' initial_filters' filters_cap'
       use_dropout' dropout_prob' non_linearity' normalization_layer' use_attention'
       n_discriminators' =
     (let self =
            \<lparr>inputs = [1, 1],
             kernel_size = kernel_size',
             initial_filters = initial_filters',
             filters_cap = filters_cap',
             use_dropout = use_dropout',
             dropout_prob = dropout_prob',
             non_linearity = non_linearity',
             normalization_layer = normalization_layer',
             use_attention = use_attention',
             n_discriminators = n_discriminators',
             input_res = input_res',
             min_res = min_res',
             discriminators = []\<rparr>
      in foldl (\<lambda>self i.
                  self\<lparr>discriminators :=
                         discriminators self
                         @ [build_discriminator self (py_int_truediv input_res' (2 ^ i))]\<rparr>)
               self [0..<nat (n_discriminators self)])"

text \<open>
  What \<^verbatim>\<open>MultiScaleDiscriminator.call\<close> returns: the list \<^verbatim>\<open>outs\<close>, or the pair
  \<^verbatim>\<open>(outs, features)\<close>.
\<close>

datatype 't multiscale_output =
  Outs "'t list"
| OutsAndFeatures "'t list" "'t list"

text \<open>
  The loop of \<^verbatim>\<open>MultiScaleDiscriminator.call\<close> over \<^verbatim>\<open>enumerate(self.discriminators)\<close>, with the
  loop variables \<^verbatim>\<open>x_i\<close>, \<^verbatim>\<open>condition_i\<close>, \<^verbatim>\<open>outs\<close> and \<^verbatim>\<open>features\<close> as arguments. \<open>patch_call\<close>
  is the call \<^verbatim>\<open>d([x_i, condition_i], training=training, return_features=True)\<close> of an
  internal discriminator, which runs library layers and returns a pair; \<open>last_index\<close> is
  \<^verbatim>\<open>len(self.discriminators) - 1\<close>.
\<close>

fun MultiScaleDiscriminator_call_loop ::
  "'t tf \<Rightarrow> (('f, 'l) PatchDiscriminator \<Rightarrow> 't list \<Rightarrow> bool \<Rightarrow> 't \<times> 't list) \<Rightarrow> bool \<Rightarrow> int \<Rightarrow>
   (nat \<times> ('f, 'l) PatchDiscriminator) list \<Rightarrow> 't \<Rightarrow> 't \<Rightarrow> 't list \<Rightarrow> 't list \<Rightarrow>
   't list \<times> 't list" where
  "MultiScaleDiscriminator_call_loop tf patch_call training last_index [] x_i condition_i
       outs features = (outs, features)"
| "MultiScaleDiscriminator_call_loop tf patch_call training last_index ((i, d) # rest) x_i
       condition_i outs features =
     (case patch_call d [x_i, condition_i] training of
        (out, feat) \<Rightarrow>
          (if int i \<noteq> last_index then
             MultiScaleDiscriminator_call_loop tf patch_call training last_index rest
               (tf_AvgPool2D tf x_i) (tf_AvgPool2D tf condition_i)
               (outs @ [out]) (features @ feat)
           else
             MultiScaleDiscriminator_call_loop tf patch_call training last_index rest
               x_i condition_i (outs @ [out]) (features @ feat)))"

text \<open>
  \<^verbatim>\<open>MultiScaleDiscriminator.call\<close>. Unpacking \<^verbatim>\<open>xs, condition = inputs\<close> raises \<^verbatim>\<open>ValueError\<close>
  unless \<^verbatim>\<open>inputs\<close> has two elements.
\<close>

definition MultiScaleDiscriminator_call ::
  "'t tf \<Rightarrow> (('f, 'l) PatchDiscriminator \<Rightarrow> 't list \<Rightarrow> bool \<Rightarrow> 't \<times> 't list) \<Rightarrow>
   ('f, 'l) MultiScaleDiscriminator \<Rightarrow> 't list \<Rightarrow> bool \<Rightarrow> bool \<Rightarrow>
   error + 't multiscale_output" where
  "MultiScaleDiscriminator_call tf patch_call self inputs' training return_features =
     (case inputs' of
        [xs, condition] \<Rightarrow>
          (case MultiScaleDiscriminator_call_loop tf patch_call training
                  (int (length (discriminators self)) - 1)
                  (enumerate 0 (discriminators self)) xs condition [] [] of
             (outs, features) \<Rightarrow>
               if return_features then Inr (OutsAndFeatures outs features)
               else Inr (Outs outs))
      | _ \<Rightarrow> Inl ValueError)"

section \<open>A small tensor library for concrete runs\<close>

text \<open>
  Integers stand for tensors. Every operation is chosen so that its effect stays visible
  in a result: \<open>tf_reduce_mean\<close> adds ten times the number of axes (one for \<^verbatim>\<open>axis=None\<close>),
  \<open>tf_expand_dims\<close> adds a thousand, the rank is 4 for even numbers and 2 for odd ones.
\<close>

definition example_tf :: "int tf" where
  "example_tf =
     \<lparr>tf_ones_like = (\<lambda>t. 1),
      tf_zeros_like = (\<lambda>t. 0),
      tf_reduce_mean = (\<lambda>t axis. case axis of None \<Rightarrow> t + 1 | Some a \<Rightarrow> t + 10 * int (length a)),
      tf_add_n = sum_list,
      tf_expand_dims = (\<lambda>t axis. t + 1000),
      tf_rank = (\<lambda>t. if even t then 4 else 2),
      tf_abs = abs,
      tf_subtract = (\<lambda>x y. x - y),
      tf_add = (\<lambda>x y. x + y),
      tf_scalar_mul = (\<lambda>r t. \<lfloor>r * of_int t\<rfloor>),
      tf_unstack = (\<lambda>t. [t]),
      tf_AvgPool2D = (\<lambda>t. t div 2)\<rparr>"

text \<open>A loss function on them: the squared distance of prediction and target.\<close>

fun example_fn :: "int tensors \<Rightarrow> int \<Rightarrow> int" where
  "example_fn (Tensor y_true) y_pred = (y_true - y_pred)\<^sup>2"
| "example_fn (TensorList ys) y_pred = (sum_list ys - y_pred)\<^sup>2"

text \<open>
  A discriminator on them: on a list of inputs it answers at two scales when training and
  with one tensor otherwise.
\<close>

fun example_call_model :: "'m keras_model_scheme \<Rightarrow> int tensors \<Rightarrow> bool \<Rightarrow> int tensors" where
  "example_call_model m (TensorList ts) training =
     (if training then TensorList [sum_list ts, 2 * sum_list ts] else Tensor (sum_list ts))"
| "example_call_model m (Tensor t) training = Tensor t"

definition example_context :: "(int, unit) GANContext" where
  "example_context = \<lparr>discriminator_model = \<lparr>inputs = [1, 1]\<rparr>, encoder_model = None\<rparr>"

text \<open>
  An internal discriminator on them, answering with the sum of its inputs plus its own
  input resolution, and a multiscale discriminator of three scales.
\<close>

definition example_patch_call ::
  "(nat, string) PatchDiscriminator \<Rightarrow> int list \<Rightarrow> bool \<Rightarrow> int \<times> int list" where
  "example_patch_call d xs training =
     (sum_list xs + layer_spec_input_res d, [sum_list xs, layer_spec_input_res d])"

definition example_multiscale :: "(nat, string) MultiScaleDiscriminator" where
  "example_multiscale =
     MultiScaleDiscriminator_init 256 1 4 64 512 True 3 ''LeakyReLU'' ''InstanceNormalization''
       False 3"

section \<open>Discriminator input shaping\<close>

text \<open>
  C1. In a context without \<^verbatim>\<open>encoder_model\<close>, \<^verbatim>\<open>get_discriminator_inputs\<close> returns the
  two-element list \<^verbatim>\<open>[fake_or_real, condition]\<close> when the discriminator model declares two
  inputs and the bare tensor \<^verbatim>\<open>fake_or_real\<close> for every other number of inputs; the list is
  returned exactly in the two-input case, and no input count raises.
\<close>

theorem get_discriminator_inputs_without_encoder:
  assumes "encoder_model context = None"
  shows "(length (inputs (discriminator_model context)) = 2 \<longrightarrow>
            get_discriminator_inputs context fake_or_real condition training =
              Inr (TensorList [fake_or_real, condition]))
       \<and> (length (inputs (discriminator_model context)) \<noteq> 2 \<longrightarrow>
            get_discriminator_inputs context fake_or_real condition training =
              Inr (Tensor fake_or_real))
       \<and> (get_discriminator_inputs context fake_or_real condition training =
              Inr (TensorList [fake_or_real, condition])
            \<longleftrightarrow> length (inputs (discriminator_model context)) = 2)"
  using assms by (simp add: get_discriminator_inputs_def)

theorem get_discriminator_inputs_without_encoder_witness:
  "encoder_model \<lparr>discriminator_model = \<lparr>inputs = [1, 1]\<rparr>,
       encoder_model = (None :: (nat \<Rightarrow> bool \<Rightarrow> nat) option)\<rparr> = None
   \<and> get_discriminator_inputs \<lparr>discriminator_model = \<lparr>inputs = [1, 1]\<rparr>,
       encoder_model = None\<rparr> (7 :: nat) 9 True = Inr (TensorList [7, 9])
   \<and> encoder_model \<lparr>discriminator_model = \<lparr>inputs = [1]\<rparr>,
       encoder_model = (None :: (nat \<Rightarrow> bool \<Rightarrow> nat) option)\<rparr> = None
   \<and> get_discriminator_inputs \<lparr>discriminator_model = \<lparr>inputs = [1]\<rparr>,
       encoder_model = None\<rparr> (7 :: nat) 9 True = Inr (Tensor 7)"
  using get_discriminator_inputs_without_encoder
          [of "\<lparr>discriminator_model = \<lparr>inputs = [1, 1]\<rparr>, encoder_model = None\<rparr>"
              "7 :: nat" 9 True]
        get_discriminator_inputs_without_encoder
          [of "\<lparr>discriminator_model = \<lparr>inputs = [1]\<rparr>, encoder_model = None\<rparr>"
              "7 :: nat" 9 True]
  by simp

text \<open>
  C2. In a context with \<^verbatim>\<open>encoder_model\<close>, the result is
  \<^verbatim>\<open>[fake_or_real, encoder_model(fake_or_real)]\<close> for a discriminator of two inputs,
  \<^verbatim>\<open>[fake_or_real, encoder_model(fake_or_real), condition]\<close> for one of three inputs, and
  \<^verbatim>\<open>ValueError\<close> for every other number of inputs. With two inputs the result is the same
  whatever the condition is: the condition enters the result in the three-input case only.
\<close>

theorem get_discriminator_inputs_with_encoder:
  assumes "encoder_model context = Some encoder"
  shows "(length (inputs (discriminator_model context)) = 2 \<longrightarrow>
            (\<forall>condition'.
               get_discriminator_inputs context fake_or_real condition' training =
                 Inr (TensorList [fake_or_real, encoder fake_or_real training])))
       \<and> (length (inputs (discriminator_model context)) = 3 \<longrightarrow>
            get_discriminator_inputs context fake_or_real condition training =
              Inr (TensorList [fake_or_real, encoder fake_or_real training, condition]))
       \<and> (length (inputs (discriminator_model context)) \<noteq> 2
            \<and> length (inputs (discriminator_model context)) \<noteq> 3 \<longrightarrow>
            get_discriminator_inputs context fake_or_real condition training =
              Inl ValueError)"
  using assms by (simp add: get_discriminator_inputs_def)

theorem get_discriminator_inputs_with_encoder_witness:
  "get_discriminator_inputs \<lparr>discriminator_model = \<lparr>inputs = [1, 1]\<rparr>,
       encoder_model = Some (\<lambda>x training. x + 100)\<rparr> (7 :: nat) 9 True
     = Inr (TensorList [7, 107])
   \<and> get_discriminator_inputs \<lparr>discriminator_model = \<lparr>inputs = [1, 1, 1]\<rparr>,
       encoder_model = Some (\<lambda>x training. x + 100)\<rparr> (7 :: nat) 9 True
     = Inr (TensorList [7, 107, 9])
   \<and> get_discriminator_inputs \<lparr>discriminator_model = \<lparr>inputs = [1]\<rparr>,
       encoder_model = Some (\<lambda>x training. x + 100)\<rparr> (7 :: nat) 9 True
     = Inl ValueError"
  using get_discriminator_inputs_with_encoder
          [of "\<lparr>discriminator_model = \<lparr>inputs = [1, 1]\<rparr>,
                 encoder_model = Some (\<lambda>x training. x + 100)\<rparr>"
              "\<lambda>x training. x + 100" "7 :: nat" True 9]
        get_discriminator_inputs_with_encoder
          [of "\<lparr>discriminator_model = \<lparr>inputs = [1, 1, 1]\<rparr>,
                 encoder_model = Some (\<lambda>x training. x + 100)\<rparr>"
              "\<lambda>x training. x + 100" "7 :: nat" True 9]
        get_discriminator_inputs_with_encoder
          [of "\<lparr>discriminator_model = \<lparr>inputs = [1]\<rparr>,
                 encoder_model = Some (\<lambda>x training. x + 100)\<rparr>"
              "\<lambda>x training. x + 100" "7 :: nat" True 9]
  by simp

section \<open>Loss selection and composition\<close>

lemma py_eq_GAN: "py_eq v (PyEnum GAN) \<longleftrightarrow> v = PyEnum GAN"
  by (cases v) auto

lemma py_eq_LSGAN: "py_eq v (PyEnum LSGAN) \<longleftrightarrow> v = PyEnum LSGAN"
  by (cases v) auto

lemma py_eq_zero: "py_eq v (PyInt 0) \<longleftrightarrow> v = PyInt 0 \<or> v = PyBool False"
  by (cases v) auto

lemma py_eq_one: "py_eq v (PyInt 1) \<longleftrightarrow> v = PyInt 1 \<or> v = PyBool True"
  by (cases v) auto

lemma selects_GAN_not_LSGAN:
  "py_eq v (PyEnum GAN) \<or> py_eq v (PyInt 0) \<Longrightarrow>
     \<not> (py_eq v (PyEnum LSGAN) \<or> py_eq v (PyInt 1))"
  by (auto simp: py_eq_GAN py_eq_LSGAN py_eq_zero py_eq_one)

text \<open>
  C4. \<^verbatim>\<open>get_adversarial_loss_generator\<close> returns the class \<^verbatim>\<open>GeneratorBCE\<close> when its argument
  equals \<^verbatim>\<open>AdversarialLossType.GAN\<close> or \<^verbatim>\<open>0\<close>, \<^verbatim>\<open>GeneratorLSGAN\<close> when it equals
  \<^verbatim>\<open>AdversarialLossType.LSGAN\<close> or \<^verbatim>\<open>1\<close>, and raises \<^verbatim>\<open>ValueError\<close> for every other argument;
  \<^verbatim>\<open>get_adversarial_loss_discriminator\<close> makes the same three-way choice and returns
  \<^verbatim>\<open>DiscriminatorMinMax\<close> and \<^verbatim>\<open>DiscriminatorLSGAN\<close>. Equality is Python's \<^verbatim>\<open>==\<close>.
\<close>

theorem get_adversarial_loss_selection:
  "((py_eq v (PyEnum GAN) \<or> py_eq v (PyInt 0)) \<longrightarrow>
      get_adversarial_loss_generator v = Inr GeneratorBCE
      \<and> get_adversarial_loss_discriminator v = Inr DiscriminatorMinMax)
 \<and> ((py_eq v (PyEnum LSGAN) \<or> py_eq v (PyInt 1)) \<longrightarrow>
      get_adversarial_loss_generator v = Inr GeneratorLSGAN
      \<and> get_adversarial_loss_discriminator v = Inr DiscriminatorLSGAN)
 \<and> (\<not> (py_eq v (PyEnum GAN) \<or> py_eq v (PyInt 0))
      \<and> \<not> (py_eq v (PyEnum LSGAN) \<or> py_eq v (PyInt 1)) \<longrightarrow>
      get_adversarial_loss_generator v = Inl ValueError
      \<and> get_adversarial_loss_discriminator v = Inl ValueError)"
proof (intro conjI impI)
  assume gan: "py_eq v (PyEnum GAN) \<or> py_eq v (PyInt 0)"
  then show "get_adversarial_loss_generator v = Inr GeneratorBCE"
    by (simp add: get_adversarial_loss_generator_def)
  from gan show "get_adversarial_loss_discriminator v = Inr DiscriminatorMinMax"
    by (simp add: get_adversarial_loss_discriminator_def)
next
  assume lsgan: "py_eq v (PyEnum LSGAN) \<or> py_eq v (PyInt 1)"
  then have not_gan: "\<not> (py_eq v (PyEnum GAN) \<or> py_eq v (PyInt 0))"
    using selects_GAN_not_LSGAN by blast
  from lsgan not_gan show "get_adversarial_loss_generator v = Inr GeneratorLSGAN"
    by (simp add: get_adversarial_loss_generator_def)
  from lsgan not_gan show "get_adversarial_loss_discriminator v = Inr DiscriminatorLSGAN"
    by (simp add: get_adversarial_loss_discriminator_def)
next
  assume other: "\<not> (py_eq v (PyEnum GAN) \<or> py_eq v (PyInt 0))
      \<and> \<not> (py_eq v (PyEnum LSGAN) \<or> py_eq v (PyInt 1))"
  then show "get_adversarial_loss_generator v = Inl ValueError"
    by (simp add: get_adversarial_loss_generator_def)
  from other show "get_adversarial_loss_discriminator v = Inl ValueError"
    by (simp add: get_adversarial_loss_discriminator_def)
qed

theorem get_adversarial_loss_selection_witness:
  "get_adversarial_loss_generator (PyEnum GAN) = Inr GeneratorBCE
   \<and> get_adversarial_loss_discriminator (PyInt 0) = Inr DiscriminatorMinMax
   \<and> get_adversarial_loss_generator (PyInt 1) = Inr GeneratorLSGAN
   \<and> get_adversarial_loss_discriminator (PyEnum LSGAN) = Inr DiscriminatorLSGAN
   \<and> get_adversarial_loss_generator (PyBool True) = Inr GeneratorLSGAN
   \<and> get_adversarial_loss_generator (PyInt 2) = Inl ValueError
   \<and> get_adversarial_loss_discriminator (PyStr ''GAN'') = Inl ValueError"
  using get_adversarial_loss_selection [of "PyEnum GAN"]
        get_adversarial_loss_selection [of "PyInt 0"]
        get_adversarial_loss_selection [of "PyInt 1"]
        get_adversarial_loss_selection [of "PyEnum LSGAN"]
        get_adversarial_loss_selection [of "PyBool True"]
        get_adversarial_loss_selection [of "PyInt 2"]
        get_adversarial_loss_selection [of "PyStr ''GAN''"]
  by simp

lemma Pix2PixLoss_propagates_error:
  "get_adversarial_loss_generator adversarial_loss_type = Inl e \<Longrightarrow>
     Pix2PixLoss w1 w2 w3 adversarial_loss_type use = Inl e
     \<and> Pix2PixLossSemantic w1 w2 w3 adversarial_loss_type use = Inl e"
  by (simp add: Pix2PixLoss_def Pix2PixLossSemantic_def)

text \<open>
  C3. \<^verbatim>\<open>Pix2PixLoss\<close> is the \<^verbatim>\<open>SumExecutor\<close> of \<^verbatim>\<open>GeneratorL1() * l1_loss_weight\<close> and the
  selected adversarial generator loss times \<^verbatim>\<open>adversarial_loss_weight\<close>, in this order, with
  \<^verbatim>\<open>FeatureMatchingLoss() * feature_matching_weight\<close> as a third summand exactly when
  \<^verbatim>\<open>use_feature_matching_loss\<close> holds; \<^verbatim>\<open>Pix2PixLossSemantic\<close> is the same with
  \<^verbatim>\<open>CategoricalCrossEntropy() * cross_entropy_weight\<close> as its first summand. Read as a
  weighted sum, the composite yields the weighted sum of what its components yield.
\<close>

theorem Pix2PixLoss_is_weighted_sum:
  assumes "get_adversarial_loss_generator adversarial_loss_type = Inr adversarial"
  shows "Pix2PixLoss l1_loss_weight adversarial_loss_weight feature_matching_weight
             adversarial_loss_type use_feature_matching_loss =
           Inr (SumExecutor
                 ([Mul (Instance GeneratorL1) l1_loss_weight,
                   Mul (Instance adversarial) adversarial_loss_weight]
                  @ (if use_feature_matching_loss
                     then [Mul (Instance FeatureMatchingLoss) feature_matching_weight]
                     else [])))
       \<and> Pix2PixLossSemantic cross_entropy_weight adversarial_loss_weight
             feature_matching_weight adversarial_loss_type use_feature_matching_loss =
           Inr (SumExecutor
                 ([Mul (Instance CategoricalCrossEntropy) cross_entropy_weight,
                   Mul (Instance adversarial) adversarial_loss_weight]
                  @ (if use_feature_matching_loss
                     then [Mul (Instance FeatureMatchingLoss) feature_matching_weight]
                     else [])))
       \<and> map_sum id (executor_value call)
             (Pix2PixLoss a b c adversarial_loss_type use_feature_matching_loss) =
           Inr (a * call GeneratorL1 + b * call adversarial
                + (if use_feature_matching_loss then c * call FeatureMatchingLoss else 0))
       \<and> map_sum id (executor_value call)
             (Pix2PixLossSemantic a b c adversarial_loss_type use_feature_matching_loss) =
           Inr (a * call CategoricalCrossEntropy + b * call adversarial
                + (if use_feature_matching_loss then c * call FeatureMatchingLoss else 0))"
  using assms by (simp add: Pix2PixLoss_def Pix2PixLossSemantic_def add.assoc)

theorem Pix2PixLoss_is_weighted_sum_witness:
  "get_adversarial_loss_generator (PyEnum LSGAN) = Inr GeneratorLSGAN
   \<and> Pix2PixLoss (100 :: int) 1 10 (PyEnum LSGAN) True =
       Inr (SumExecutor [Mul (Instance GeneratorL1) 100, Mul (Instance GeneratorLSGAN) 1,
                         Mul (Instance FeatureMatchingLoss) 10])
   \<and> Pix2PixLossSemantic (100 :: int) 1 10 (PyEnum LSGAN) False =
       Inr (SumExecutor [Mul (Instance CategoricalCrossEntropy) 100,
                         Mul (Instance GeneratorLSGAN) 1])
   \<and> map_sum id (executor_value (\<lambda>c. if c = GeneratorL1 then 2 else 3))
       (Pix2PixLoss (100 :: int) 1 10 (PyEnum LSGAN) True) = Inr 233"
proof -
  have sel: "get_adversarial_loss_generator (PyEnum LSGAN) = Inr GeneratorLSGAN"
    by (simp add: get_adversarial_loss_generator_def)
  show ?thesis
    using sel
      Pix2PixLoss_is_weighted_sum [OF sel,
        where l1_loss_weight = "100 :: int" and adversarial_loss_weight = 1
          and feature_matching_weight = 10 and use_feature_matching_loss = True
          and cross_entropy_weight = 100 and a = "100 :: int" and b = 1 and c = 10
          and call = "\<lambda>c. if c = GeneratorL1 then 2 else 3"]
      Pix2PixLoss_is_weighted_sum [OF sel,
        where l1_loss_weight = "100 :: int" and adversarial_loss_weight = 1
          and feature_matching_weight = 10 and use_feature_matching_loss = False
          and cross_entropy_weight = 100 and a = "100 :: int" and b = 1 and c = 10
          and call = "\<lambda>c. if c = GeneratorL1 then 2 else 3"]
    by simp
qed

section \<open>Adversarial losses on single and multiscale outputs\<close>

lemma AdversarialLossG_multiscale:
  assumes "get_discriminator_inputs context fake condition training = Inr fake_inputs"
      and "call_model (discriminator_model context) fake_inputs training = TensorList d_fake"
  shows "AdversarialLossG_call_body tf call_model fn context fake condition training =
           Inr (tf_add_n tf
                 (map (\<lambda>d_fake_i. tf_reduce_mean tf
                                     (fn (Tensor (tf_ones_like tf d_fake_i)) d_fake_i)
                                     (Some [1, 2]))
                      d_fake))"
  using assms by (simp add: AdversarialLossG_call_body_def)

lemma AdversarialLossG_single:
  assumes "get_discriminator_inputs context fake condition training = Inr fake_inputs"
      and "call_model (discriminator_model context) fake_inputs training = Tensor d_fake"
  shows "AdversarialLossG_call_body tf call_model fn context fake condition training =
           Inr (tf_reduce_mean tf
                 (if tf_rank tf d_fake = 4 then fn (Tensor (tf_ones_like tf d_fake)) d_fake
                  else tf_expand_dims tf
                         (tf_expand_dims tf (fn (Tensor (tf_ones_like tf d_fake)) d_fake) (- 1))
                         (- 1))
                 (Some [1, 2]))"
  using assms by (simp add: AdversarialLossG_call_body_def Let_def)

lemma AdversarialLossD_multiscale:
  assumes "get_discriminator_inputs context fake condition training = Inr fake_inputs"
      and "get_discriminator_inputs context real' condition training = Inr real_inputs"
      and "call_model (discriminator_model context) fake_inputs training = TensorList d_fake"
      and "call_model (discriminator_model context) real_inputs training = TensorList d_real"
  shows "AdversarialLossD_call_body tf call_model fn context fake real' condition training =
           Inr (tf_add_n tf
                 (map (\<lambda>(d_real_i, d_fake_i).
                         tf_reduce_mean tf (fn (Tensor d_real_i) d_fake_i) (Some [1, 2]))
                      (zip d_real d_fake)))"
  using assms by (simp add: AdversarialLossD_call_body_def)

lemma AdversarialLossD_single:
  assumes "get_discriminator_inputs context fake condition training = Inr fake_inputs"
      and "get_discriminator_inputs context real' condition training = Inr real_inputs"
      and "call_model (discriminator_model context) fake_inputs training = Tensor d_fake"
  shows "AdversarialLossD_call_body tf call_model fn context fake real' condition training =
           Inr (tf_reduce_mean tf
                 (if tf_rank tf d_fake = 4
                  then fn (call_model (discriminator_model context) real_inputs training) d_fake
                  else tf_expand_dims tf
                         (tf_expand_dims tf
                            (fn (call_model (discriminator_model context) real_inputs training)
                                d_fake)
                            (- 1))
                         (- 1))
                 (Some [1, 2]))"
  using assms by (simp add: AdversarialLossD_call_body_def Let_def)

text \<open>
  C6. Let the discriminator inputs be built without error. When the discriminator answers
  with a list, the per-example loss of \<^verbatim>\<open>AdversarialLossG.call\<close> is the \<^verbatim>\<open>tf.add_n\<close> over the
  scales of the mean over axes 1 and 2 of the loss function on \<^verbatim>\<open>(ones_like(d_i), d_i)\<close>, and
  that of \<^verbatim>\<open>AdversarialLossD.call\<close> the same sum of the loss function on the zipped pairs
  \<^verbatim>\<open>(d_real_i, d_fake_i)\<close>. When it answers with one tensor, the loss-function value is
  expanded by two trailing axes unless the rank of the discriminator output is 4, and then
  reduced by the mean over axes 1 and 2. The decorator is applied to that value.
\<close>

theorem adversarial_loss_call:
  assumes "get_discriminator_inputs context fake condition training = Inr fake_inputs"
      and "get_discriminator_inputs context real' condition training = Inr real_inputs"
  shows "(\<forall>d_fake. call_model (discriminator_model context) fake_inputs training
                     = TensorList d_fake \<longrightarrow>
            AdversarialLossG_call_body tf call_model fn context fake condition training =
              Inr (tf_add_n tf
                    (map (\<lambda>d_fake_i. tf_reduce_mean tf
                                        (fn (Tensor (tf_ones_like tf d_fake_i)) d_fake_i)
                                        (Some [1, 2]))
                         d_fake)))
       \<and> (\<forall>d_fake. call_model (discriminator_model context) fake_inputs training
                     = Tensor d_fake \<longrightarrow>
            AdversarialLossG_call_body tf call_model fn context fake condition training =
              Inr (tf_reduce_mean tf
                    (if tf_rank tf d_fake = 4
                     then fn (Tensor (tf_ones_like tf d_fake)) d_fake
                     else tf_expand_dims tf
                            (tf_expand_dims tf (fn (Tensor (tf_ones_like tf d_fake)) d_fake)
                               (- 1))
                            (- 1))
                    (Some [1, 2])))
       \<and> (\<forall>d_fake d_real.
            call_model (discriminator_model context) fake_inputs training = TensorList d_fake
            \<and> call_model (discriminator_model context) real_inputs training = TensorList d_real
            \<longrightarrow>
            AdversarialLossD_call_body tf call_model fn context fake real' condition training =
              Inr (tf_add_n tf
                    (map (\<lambda>(d_real_i, d_fake_i).
                            tf_reduce_mean tf (fn (Tensor d_real_i) d_fake_i) (Some [1, 2]))
                         (zip d_real d_fake))))
       \<and> (\<forall>d_fake. call_model (discriminator_model context) fake_inputs training
                     = Tensor d_fake \<longrightarrow>
            AdversarialLossD_call_body tf call_model fn context fake real' condition training =
              Inr (tf_reduce_mean tf
                    (if tf_rank tf d_fake = 4
                     then fn (call_model (discriminator_model context) real_inputs training)
                             d_fake
                     else tf_expand_dims tf
                            (tf_expand_dims tf
                               (fn (call_model (discriminator_model context) real_inputs
                                      training)
                                   d_fake)
                               (- 1))
                            (- 1))
                    (Some [1, 2])))
       \<and> AdversarialLossG_call reduce_loss tf call_model fn context fake condition training =
           map_sum id reduce_loss
             (AdversarialLossG_call_body tf call_model fn context fake condition training)
       \<and> AdversarialLossD_call reduce_loss tf call_model fn context fake real' condition
             training =
           map_sum id reduce_loss
             (AdversarialLossD_call_body tf call_model fn context fake real' condition
                training)"
  using AdversarialLossG_multiscale [OF assms(1)] AdversarialLossG_single [OF assms(1)]
        AdversarialLossD_multiscale [OF assms] AdversarialLossD_single [OF assms]
  by (simp add: AdversarialLossG_call_def AdversarialLossD_call_def)

lemma example_inputs:
  "get_discriminator_inputs example_context x c training = Inr (TensorList [x, c])"
  by (simp add: get_discriminator_inputs_def example_context_def)

theorem adversarial_loss_call_witness:
  "get_discriminator_inputs example_context 3 4 True = Inr (TensorList [3, 4])
   \<and> get_discriminator_inputs example_context 5 4 True = Inr (TensorList [5, 4])
   \<and> example_call_model (discriminator_model example_context) (TensorList [3, 4]) True
       = TensorList [7, 14]
   \<and> example_call_model (discriminator_model example_context) (TensorList [5, 4]) True
       = TensorList [9, 18]
   \<and> AdversarialLossG_call_body example_tf example_call_model example_fn
        example_context 3 4 True = Inr 245
   \<and> AdversarialLossD_call_body example_tf example_call_model example_fn
        example_context 3 5 4 True = Inr 60
   \<and> example_call_model (discriminator_model example_context) (TensorList [3, 4]) False
       = Tensor 7
   \<and> AdversarialLossG_call_body example_tf example_call_model example_fn
        example_context 3 4 False = Inr 2056
   \<and> AdversarialLossD_call_body example_tf example_call_model example_fn
        example_context 3 5 4 False = Inr 2024
   \<and> AdversarialLossG_call_body example_tf example_call_model example_fn
        example_context 4 4 False = Inr 69
   \<and> AdversarialLossG_call (\<lambda>t. t + 1) example_tf example_call_model example_fn
        example_context 4 4 False = Inr 70"
  using adversarial_loss_call
          [OF example_inputs [of 3 4 True] example_inputs [of 5 4 True],
           where tf = example_tf and call_model = example_call_model and fn = example_fn
             and reduce_loss = "\<lambda>t. t + 1"]
        adversarial_loss_call
          [OF example_inputs [of 3 4 False] example_inputs [of 5 4 False],
           where tf = example_tf and call_model = example_call_model and fn = example_fn
             and reduce_loss = "\<lambda>t. t + 1"]
        adversarial_loss_call
          [OF example_inputs [of 4 4 False] example_inputs [of 4 4 False],
           where tf = example_tf and call_model = example_call_model and fn = example_fn
             and reduce_loss = "\<lambda>t. t + 1"]
  by (simp add: example_inputs example_tf_def)

section \<open>The elementary losses\<close>

text \<open>
  C10. \<^verbatim>\<open>L1Loss.call\<close> returns \<^verbatim>\<open>tf.reduce_mean(tf.abs(x - y), axis)\<close> with \<^verbatim>\<open>axis=None\<close> (all
  axes) when the reduction is \<^verbatim>\<open>SUM_OVER_BATCH_SIZE\<close>, with \<^verbatim>\<open>axis=(1, 2, 3)\<close> when it is
  \<^verbatim>\<open>NONE\<close>, and raises \<^verbatim>\<open>ValueError\<close> for every other reduction.
\<close>

theorem L1Loss_call_by_reduction:
  "(reduction self = SUM_OVER_BATCH_SIZE \<longrightarrow>
      L1Loss_call tf self x y = Inr (tf_reduce_mean tf (tf_abs tf (tf_subtract tf x y)) None))
 \<and> (reduction self = NONE \<longrightarrow>
      L1Loss_call tf self x y =
        Inr (tf_reduce_mean tf (tf_abs tf (tf_subtract tf x y)) (Some [1, 2, 3])))
 \<and> (reduction self \<noteq> SUM_OVER_BATCH_SIZE \<and> reduction self \<noteq> NONE \<longrightarrow>
      L1Loss_call tf self x y = Inl ValueError)"
  by (simp add: L1Loss_call_def)

theorem L1Loss_call_by_reduction_witness:
  "reduction L1Loss_init = SUM_OVER_BATCH_SIZE
   \<and> L1Loss_call example_tf L1Loss_init 3 10 = Inr 8
   \<and> L1Loss_call example_tf \<lparr>reduction = NONE\<rparr> 3 10 = Inr 37
   \<and> L1Loss_call example_tf \<lparr>reduction = AUTO\<rparr> 3 10 = Inl ValueError
   \<and> L1Loss_call example_tf \<lparr>reduction = SUM'\<rparr> 3 10 = Inl ValueError"
  using L1Loss_call_by_reduction [of L1Loss_init example_tf 3 10]
        L1Loss_call_by_reduction [of "\<lparr>reduction = NONE\<rparr>" example_tf 3 10]
        L1Loss_call_by_reduction [of "\<lparr>reduction = AUTO\<rparr>" example_tf 3 10]
        L1Loss_call_by_reduction [of "\<lparr>reduction = SUM'\<rparr>" example_tf 3 10]
  by (simp add: L1Loss_init_def example_tf_def)

text \<open>
  C9. \<^verbatim>\<open>GANLoss.call\<close> returns 0.5 times the sum of the positive cross-entropy on
  \<^verbatim>\<open>(ones_like(d_real), d_real)\<close> and the negative cross-entropy on
  \<^verbatim>\<open>(zeros_like(d_fake), d_fake)\<close>. The constructor's \<^verbatim>\<open>label_smoothing\<close> reaches the positive
  cross-entropy only; the negative one has label smoothing 0.0, and both keep their label
  smoothing whatever reduction is set afterwards.
\<close>

theorem GANLoss_call_value:
  "GANLoss_call tf bce (GANLoss_set_reduction r (GANLoss_init from_logits' label_smoothing'))
       d_real d_fake =
     tf_scalar_mul tf 0.5
       (tf_add tf
          (bce \<lparr>reduction = r, from_logits = from_logits', label_smoothing = label_smoothing'\<rparr>
               (tf_ones_like tf d_real) d_real)
          (bce \<lparr>reduction = r, from_logits = from_logits', label_smoothing = 0.0\<rparr>
               (tf_zeros_like tf d_fake) d_fake))
   \<and> GANLoss_call tf bce (GANLoss_init from_logits' label_smoothing') d_real d_fake =
     tf_scalar_mul tf 0.5
       (tf_add tf
          (bce (positive_bce (GANLoss_init from_logits' label_smoothing'))
               (tf_ones_like tf d_real) d_real)
          (bce (negative_bce (GANLoss_init from_logits' label_smoothing'))
               (tf_zeros_like tf d_fake) d_fake))
   \<and> label_smoothing (positive_bce (GANLoss_init from_logits' label_smoothing'))
       = label_smoothing'
   \<and> label_smoothing (negative_bce (GANLoss_init from_logits' label_smoothing')) = 0.0
   \<and> from_logits (positive_bce (GANLoss_init from_logits' label_smoothing')) = from_logits'
   \<and> from_logits (negative_bce (GANLoss_init from_logits' label_smoothing')) = from_logits'"
  by (simp add: GANLoss_call_def GANLoss_init_def GANLoss_set_reduction_def)

section \<open>The multiscale discriminator\<close>

lemma init_loop_fields:
  "inputs (foldl (\<lambda>self i. self\<lparr>discriminators := discriminators self @ [build_discriminator self (f i)]\<rparr>) self is) = inputs self"
  by (induction "is" arbitrary: self) simp_all

lemma build_discriminator_update:
  "build_discriminator (self\<lparr>discriminators := ds\<rparr>) r = build_discriminator self r"
  by (simp add: build_discriminator_def)

lemma init_loop_discriminators:
  "discriminators (foldl (\<lambda>self i. self\<lparr>discriminators := discriminators self @ [build_discriminator self (f i)]\<rparr>) self is)
     = discriminators self @ map (\<lambda>i. build_discriminator self (f i)) is"
  by (induction "is" arbitrary: self) (simp_all add: build_discriminator_update)

lemma init_builds_map:
  "discriminators (MultiScaleDiscriminator_init input_res' min_res' kernel_size' initial_filters'
       filters_cap' use_dropout' dropout_prob' non_linearity' normalization_layer'
       use_attention' n) =
     map (\<lambda>i. PatchDiscriminator_init (py_int_truediv input_res' (2 ^ i)) min_res' kernel_size'
                 initial_filters' filters_cap' use_dropout' dropout_prob' non_linearity'
                 normalization_layer' use_attention')
         [0..<nat n]"
  by (simp add: MultiScaleDiscriminator_init_def Let_def init_loop_discriminators)
     (simp add: build_discriminator_def)

lemma MultiScaleDiscriminator_init_inputs:
  "inputs (MultiScaleDiscriminator_init input_res' min_res' kernel_size' initial_filters'
       filters_cap' use_dropout' dropout_prob' non_linearity' normalization_layer'
       use_attention' n) = [1, 1]"
  by (simp add: MultiScaleDiscriminator_init_def Let_def init_loop_fields)

lemma call_loop_result:
  "last_index = int (k + length ds) - 1 \<Longrightarrow>
   MultiScaleDiscriminator_call_loop tf patch_call training last_index (enumerate k ds)
       x c outs features =
     (outs @ map (\<lambda>j. fst (patch_call (ds ! j)
                          [(tf_AvgPool2D tf ^^ j) x, (tf_AvgPool2D tf ^^ j) c] training))
                 [0..<length ds],
      features @ concat (map (\<lambda>j. snd (patch_call (ds ! j)
                          [(tf_AvgPool2D tf ^^ j) x, (tf_AvgPool2D tf ^^ j) c] training))
                 [0..<length ds]))"
proof (induction ds arbitrary: k x c outs features)
  case Nil
  then show ?case by simp
next
  case (Cons d ds)
  obtain out feat where pc: "patch_call d [x, c] training = (out, feat)"
    by (cases "patch_call d [x, c] training")
  have shift: "[0..<Suc (length ds)] = 0 # map Suc [0..<length ds]"
    by (simp add: upt_conv_Cons map_Suc_upt del: upt_Suc)
  show ?case
  proof (cases "ds = []")
    case True
    with Cons.prems pc show ?thesis by simp
  next
    case False
    with Cons.prems have ne: "int k \<noteq> last_index" by (cases ds) auto
    from Cons.prems have last': "last_index = int (Suc k + length ds) - 1" by simp
    show ?thesis
      using Cons.IH [OF last'] pc ne
      by (simp add: shift funpow_swap1 comp_def del: upt_Suc)
  qed
qed



text \<open>
  C5. On a pair of inputs \<^verbatim>\<open>[x, condition]\<close>, \<^verbatim>\<open>MultiScaleDiscriminator.call\<close> of a constructed
  model returns one output per internal discriminator, \<open>nat n\<close> in all; the \<open>i\<close>-th is
  the first component of the \<open>i\<close>-th internal discriminator applied to \<^verbatim>\<open>x\<close> and
  \<^verbatim>\<open>condition\<close>, each passed \<open>i\<close> times through the average pooling (the inputs are pooled
  after every discriminator but the last). The features are the concatenation of the
  second components. The result is the pair \<^verbatim>\<open>(outs, features)\<close> when \<^verbatim>\<open>return_features\<close>
  holds and \<^verbatim>\<open>outs\<close> alone otherwise.
\<close>

theorem MultiScaleDiscriminator_call_outputs:
  assumes "self = MultiScaleDiscriminator_init input_res' min_res' kernel_size'
       initial_filters' filters_cap' use_dropout' dropout_prob' non_linearity'
       normalization_layer' use_attention' n"
  shows "MultiScaleDiscriminator_call tf patch_call self [x, condition] training
           return_features =
         Inr (if return_features
              then OutsAndFeatures
                     (map (\<lambda>i. fst (patch_call (discriminators self ! i)
                                       [(tf_AvgPool2D tf ^^ i) x,
                                        (tf_AvgPool2D tf ^^ i) condition] training))
                          [0..<nat n])
                     (concat
                        (map (\<lambda>i. snd (patch_call (discriminators self ! i)
                                          [(tf_AvgPool2D tf ^^ i) x,
                                           (tf_AvgPool2D tf ^^ i) condition] training))
                             [0..<nat n]))
              else Outs
                     (map (\<lambda>i. fst (patch_call (discriminators self ! i)
                                       [(tf_AvgPool2D tf ^^ i) x,
                                        (tf_AvgPool2D tf ^^ i) condition] training))
                          [0..<nat n]))
       \<and> length (discriminators self) = nat n"
proof -
  have len: "length (discriminators self) = nat n"
    using assms by (simp add: init_builds_map)
  have "MultiScaleDiscriminator_call_loop tf patch_call training
          (int (length (discriminators self)) - 1) (enumerate 0 (discriminators self))
          x condition [] [] =
        (map (\<lambda>i. fst (patch_call (discriminators self ! i)
                          [(tf_AvgPool2D tf ^^ i) x, (tf_AvgPool2D tf ^^ i) condition]
                          training))
             [0..<length (discriminators self)],
         concat (map (\<lambda>i. snd (patch_call (discriminators self ! i)
                          [(tf_AvgPool2D tf ^^ i) x, (tf_AvgPool2D tf ^^ i) condition]
                          training))
             [0..<length (discriminators self)]))"
    using call_loop_result [of "int (length (discriminators self)) - 1" 0
        "discriminators self" tf patch_call training x condition "[]" "[]"]
    by simp
  with len show ?thesis
    by (simp add: MultiScaleDiscriminator_call_def)
qed

theorem MultiScaleDiscriminator_call_outputs_witness:
  "MultiScaleDiscriminator_call example_tf example_patch_call example_multiscale [100, 40]
       True False = Inr (Outs [396, 198, 99])
   \<and> MultiScaleDiscriminator_call example_tf example_patch_call example_multiscale [100, 40]
       True True =
       Inr (OutsAndFeatures [396, 198, 99] [140, 256, 70, 128, 35, 64])
   \<and> length (discriminators example_multiscale) = 3"
proof -
  have ds: "discriminators example_multiscale =
      [PatchDiscriminator_init 256 1 4 64 512 True 3 ''LeakyReLU'' ''InstanceNormalization'' False,
       PatchDiscriminator_init 128 1 4 64 512 True 3 ''LeakyReLU'' ''InstanceNormalization'' False,
       PatchDiscriminator_init 64 1 4 64 512 True 3 ''LeakyReLU'' ''InstanceNormalization'' False]"
    by (simp add: example_multiscale_def init_builds_map py_int_truediv_def upt_rec
          numeral_2_eq_2 numeral_3_eq_3)
  have up: "[0..<3] = [0, 1, 2 :: nat]"
    by (simp add: upt_rec numeral_3_eq_3)
  show ?thesis
    using MultiScaleDiscriminator_call_outputs [OF example_multiscale_def,
            of example_tf example_patch_call 100 40 True False]
          MultiScaleDiscriminator_call_outputs [OF example_multiscale_def,
            of example_tf example_patch_call 100 40 True True]
    by (simp add: ds up example_patch_call_def example_tf_def PatchDiscriminator_init_def
          numeral_2_eq_2)
qed

text \<open>
  C8. A freshly constructed \<^verbatim>\<open>PatchDiscriminator\<close> or \<^verbatim>\<open>MultiScaleDiscriminator\<close> has
  \<^verbatim>\<open>inputs = [1, 1]\<close>, of length 2, so \<^verbatim>\<open>get_discriminator_inputs\<close> takes its two-input branch
  for a context whose discriminator is such a model: the result is the list of
  \<^verbatim>\<open>fake_or_real\<close> and the condition, or of \<^verbatim>\<open>fake_or_real\<close> and its encoding when the
  context has an encoder, and never the bare tensor or an error.
\<close>

theorem discriminators_declare_two_inputs:
  "inputs (PatchDiscriminator_init input_res' min_res' kernel_size' initial_filters'
       filters_cap' use_dropout' dropout_prob' non_linearity' normalization_layer'
       use_attention') = [1, 1]
   \<and> inputs (MultiScaleDiscriminator_init input_res' min_res' kernel_size' initial_filters'
       filters_cap' use_dropout' dropout_prob' non_linearity' normalization_layer'
       use_attention' n) = [1, 1]
   \<and> length (inputs (PatchDiscriminator_init input_res' min_res' kernel_size'
       initial_filters' filters_cap' use_dropout' dropout_prob' non_linearity'
       normalization_layer' use_attention')) = 2
   \<and> length (inputs (MultiScaleDiscriminator_init input_res' min_res' kernel_size'
       initial_filters' filters_cap' use_dropout' dropout_prob' non_linearity'
       normalization_layer' use_attention' n)) = 2
   \<and> get_discriminator_inputs
       \<lparr>discriminator_model = PatchDiscriminator_init input_res' min_res' kernel_size'
          initial_filters' filters_cap' use_dropout' dropout_prob' non_linearity'
          normalization_layer' use_attention',
        encoder_model = encoder\<rparr> fake_or_real condition training =
       Inr (TensorList [fake_or_real,
                        case encoder of None \<Rightarrow> condition
                        | Some e \<Rightarrow> e fake_or_real training])
   \<and> get_discriminator_inputs
       \<lparr>discriminator_model = MultiScaleDiscriminator_init input_res' min_res' kernel_size'
          initial_filters' filters_cap' use_dropout' dropout_prob' non_linearity'
          normalization_layer' use_attention' n,
        encoder_model = encoder\<rparr> fake_or_real condition training =
       Inr (TensorList [fake_or_real,
                        case encoder of None \<Rightarrow> condition
                        | Some e \<Rightarrow> e fake_or_real training])"
  by (simp add: MultiScaleDiscriminator_init_inputs get_discriminator_inputs_def
        PatchDiscriminator_init_def split: option.split)

end
